theory Spec2Isabelle
  imports Main "HOL-Library.AList"
begin

section \<open>The file storage adapter of \<^verbatim>\<open>lib/storage/adapters/file.js\<close>\<close>

text \<open>
  The adapter keeps one JSON file per key under a root directory. Its methods are
  embedded as functions on an explicit world (the adapter object, the file tree, the
  readable streams and the standard output). A method either throws synchronously or
  completes through its Node-style callback; both are values of the model, so that
  where a failure goes is part of what is proved.
\<close>

subsection \<open>Errors and outcomes\<close>

datatype errno = ENOENT | ENOTDIR | EISDIR | EEXIST | EACCES | EPERM | EROFS | EBUSY | EIO

datatype js_error =
    ReferenceError string   \<comment> \<open>an identifier with no initialised binding; the name\<close>
  | TypeError string
  | SyntaxError             \<comment> \<open>thrown by \<^verbatim>\<open>JSON.parse\<close>\<close>
  | AssertionError string
  | SystemError errno       \<comment> \<open>an error of the \<^verbatim>\<open>fs\<close> module\<close>
  | NotImplemented string   \<comment> \<open>\<^verbatim>\<open>ERR_METHOD_NOT_IMPLEMENTED\<close>; the method\<close>

text \<open>
  How a call of a method ends. \<open>Throws\<close>: an exception leaves the call synchronously,
  the callback is never invoked. \<open>CbErr\<close> and \<open>CbOk\<close>: the callback is invoked with
  an error, or with \<^verbatim>\<open>null\<close> and a result. \<open>Uncaught\<close>: an exception is thrown inside
  an asynchronous \<^verbatim>\<open>fs\<close> completion handler, after the call returned; the callback is
  never invoked. \<open>Returns\<close>: a plain return value (\<^verbatim>\<open>_keys\<close> takes no callback).
\<close>

datatype 'a outcome =
    Throws js_error
  | CbErr js_error
  | CbOk 'a
  | Uncaught js_error
  | Returns 'a

subsection \<open>JSON values and \<^verbatim>\<open>JSON.stringify\<close>\<close>

text \<open>
  Strings are byte strings (the UTF-8 encoding that \<^verbatim>\<open>fs.writeFile\<close> produces), numbers
  are the integers. An object is the list of its own enumerable properties in
  enumeration order.
\<close>

datatype json =
    JNull
  | JBool bool
  | JNum int
  | JStr string
  | JArr "json list"
  | JObj "(string \<times> json) list"

type_synonym item = "(string \<times> json) list"

fun digits :: "nat \<Rightarrow> string" where
  "digits n =
     (if n < 10 then [char_of (48 + n)]
      else digits (n div 10) @ [char_of (48 + n mod 10)])"

definition hex_digit :: "nat \<Rightarrow> char" where
  "hex_digit n = (if n < 10 then char_of (48 + n) else char_of (87 + n))"

definition escape_char :: "char \<Rightarrow> string" where
  "escape_char c =
     (if c = CHR 0x22 then [CHR 0x5C, CHR 0x22]
      else if c = CHR 0x5C then [CHR 0x5C, CHR 0x5C]
      else if c = CHR 0x08 then [CHR 0x5C, CHR ''b'']
      else if c = CHR 0x0C then [CHR 0x5C, CHR ''f'']
      else if c = CHR 0x0A then [CHR 0x5C, CHR ''n'']
      else if c = CHR 0x0D then [CHR 0x5C, CHR ''r'']
      else if c = CHR 0x09 then [CHR 0x5C, CHR ''t'']
      else if (of_char c :: nat) < 32
        then CHR 0x5C # ''u00'' @ [hex_digit (of_char c div 16), hex_digit (of_char c mod 16)]
      else [c])"

definition json_quote :: "string \<Rightarrow> string" where
  "json_quote s = CHR 0x22 # concat (map escape_char s) @ [CHR 0x22]"

fun commas :: "string list \<Rightarrow> string" where
  "commas [] = []"
| "commas [x] = x"
| "commas (x # y # ys) = x @ '','' @ commas (y # ys)"

fun JSON_stringify :: "json \<Rightarrow> string" where
  "JSON_stringify JNull = ''null''"
| "JSON_stringify (JBool b) = (if b then ''true'' else ''false'')"
| "JSON_stringify (JNum n) = (if n < 0 then ''-'' @ digits (nat (- n)) else digits (nat n))"
| "JSON_stringify (JStr s) = json_quote s"
| "JSON_stringify (JArr xs) = ''['' @ commas (map JSON_stringify xs) @ '']''"
| "JSON_stringify (JObj ps) =
     ''{'' @ commas (map (\<lambda>(k, v). json_quote k @ '':'' @ JSON_stringify v) ps) @ ''}''"

text \<open>
  Property assignment \<^verbatim>\<open>item.f = v\<close>: an existing property keeps its place, a new one
  is added last.
\<close>

definition set_prop :: "item \<Rightarrow> string \<Rightarrow> json \<Rightarrow> item" where
  "set_prop it f v = AList.update f v it"

definition get_prop :: "item \<Rightarrow> string \<Rightarrow> json option" where
  "get_prop it f = map_of it f"

subsection \<open>Paths: \<^verbatim>\<open>path.join\<close> on POSIX\<close>

primrec split_slash :: "string \<Rightarrow> string list" where
  "split_slash [] = [[]]"
| "split_slash (c # cs) =
     (if c = CHR ''/'' then [] # split_slash cs
      else (case split_slash cs of
              [] \<Rightarrow> [[c]]
            | x # xs \<Rightarrow> (c # x) # xs))"

text \<open>
  Node's \<^verbatim>\<open>normalizeString\<close>: empty and \<^verbatim>\<open>.\<close> segments vanish, \<^verbatim>\<open>..\<close> removes the
  segment before it; where there is none it is kept for a relative path
  (\<open>allowAboveRoot\<close>) and dropped for an absolute one. The accumulator is reversed.
\<close>

fun normalizeString :: "bool \<Rightarrow> string list \<Rightarrow> string list \<Rightarrow> string list" where
  "normalizeString allowAboveRoot acc [] = rev acc"
| "normalizeString allowAboveRoot acc (c # cs) =
     (if c = [] \<or> c = ''.'' then normalizeString allowAboveRoot acc cs
      else if c = ''..'' then
        (case acc of
           [] \<Rightarrow> normalizeString allowAboveRoot (if allowAboveRoot then [''..''] else []) cs
         | x # xs \<Rightarrow>
             if x = ''..'' then normalizeString allowAboveRoot (if allowAboveRoot then ''..'' # acc else acc) cs
             else normalizeString allowAboveRoot xs cs)
      else normalizeString allowAboveRoot (c # acc) cs)"

fun join_slash :: "string list \<Rightarrow> string" where
  "join_slash [] = []"
| "join_slash [x] = x"
| "join_slash (x # y # ys) = x @ ''/'' @ join_slash (y # ys)"

definition path_normalize :: "string \<Rightarrow> string" where
  "path_normalize p =
     (if p = [] then ''.''
      else
        let isAbsolute = (hd p = CHR ''/'');
            trailingSeparator = (last p = CHR ''/'');
            s = join_slash (normalizeString (\<not> isAbsolute) [] (split_slash p))
        in if s = [] then (if isAbsolute then ''/'' else if trailingSeparator then ''./'' else ''.'')
           else (if isAbsolute then ''/'' else []) @ s @ (if trailingSeparator then ''/'' else []))"

definition path_join :: "string \<Rightarrow> string \<Rightarrow> string" where
  "path_join a b =
     (let joined = (if a = [] then b else if b = [] then a else a @ ''/'' @ b)
      in if joined = [] then ''.'' else path_normalize joined)"

subsection \<open>The file tree and the \<^verbatim>\<open>fs\<close> module\<close>

text \<open>
  The file system is the tree below \<^verbatim>\<open>/\<close>: regular files with their bytes, and
  directories with their entries in listing order. There are no links and no
  permissions. A path string is resolved from \<^verbatim>\<open>/\<close> (the working directory of the
  process is taken to be \<^verbatim>\<open>/\<close>); a path that ends in a separator, \<^verbatim>\<open>.\<close> or \<^verbatim>\<open>..\<close> must
  name a directory.
\<close>

datatype node = File string | Dir "(string \<times> node) list"

definition components :: "string \<Rightarrow> string list" where
  "components p = normalizeString False [] (split_slash p)"

definition must_dir :: "string \<Rightarrow> bool" where
  "must_dir p = (last (split_slash p) \<in> {[], ''.'', ''..''})"

fun walk :: "node \<Rightarrow> string list \<Rightarrow> errno + node" where
  "walk n [] = Inr n"
| "walk (File d) (c # cs) = Inl ENOTDIR"
| "walk (Dir es) (c # cs) =
     (case map_of es c of None \<Rightarrow> Inl ENOENT | Some m \<Rightarrow> walk m cs)"

definition lookup_path :: "(string \<times> node) list \<Rightarrow> string \<Rightarrow> errno + node" where
  "lookup_path root p =
     (if p = [] then Inl ENOENT
      else (case walk (Dir root) (components p) of
              Inl e \<Rightarrow> Inl e
            | Inr (File d) \<Rightarrow> if must_dir p then Inl ENOTDIR else Inr (File d)
            | Inr (Dir es) \<Rightarrow> Inr (Dir es)))"

record stats =
  isDirectory :: bool
  st_size :: nat

text \<open>The size reported for a directory depends on the platform; nothing below uses it.\<close>

definition dir_inode_size :: nat where
  "dir_inode_size = 4096"

definition stats_of :: "node \<Rightarrow> stats" where
  "stats_of n =
     (case n of
        File d \<Rightarrow> \<lparr>isDirectory = False, st_size = length d\<rparr>
      | Dir es \<Rightarrow> \<lparr>isDirectory = True, st_size = dir_inode_size\<rparr>)"

text \<open>\<^verbatim>\<open>fs.statSync\<close>: \<open>Inl\<close> is the exception it throws.\<close>

definition statSync :: "(string \<times> node) list \<Rightarrow> string \<Rightarrow> js_error + stats" where
  "statSync root p =
     (case lookup_path root p of
        Inl e \<Rightarrow> Inl (SystemError e)
      | Inr n \<Rightarrow> Inr (stats_of n))"

text \<open>\<^verbatim>\<open>fs.readdirSync\<close>: the names of the entries, or the exception it throws.\<close>

definition readdirSync :: "(string \<times> node) list \<Rightarrow> string \<Rightarrow> js_error + string list" where
  "readdirSync root p =
     (case lookup_path root p of
        Inl e \<Rightarrow> Inl (SystemError e)
      | Inr (File d) \<Rightarrow> Inl (SystemError ENOTDIR)
      | Inr (Dir es) \<Rightarrow> Inr (map fst es))"

text \<open>\<^verbatim>\<open>fs.readFile(p, 'utf8', cb)\<close>: \<open>Inl\<close> is the error handed to \<^verbatim>\<open>cb\<close>.\<close>

definition readFile :: "(string \<times> node) list \<Rightarrow> string \<Rightarrow> js_error + string" where
  "readFile root p =
     (case lookup_path root p of
        Inl e \<Rightarrow> Inl (SystemError e)
      | Inr (File d) \<Rightarrow> Inr d
      | Inr (Dir es) \<Rightarrow> Inl (SystemError EISDIR))"

fun write_at :: "node \<Rightarrow> string list \<Rightarrow> string \<Rightarrow> errno + node" where
  "write_at (File old) [] d = Inr (File d)"
| "write_at (Dir es) [] d = Inl EISDIR"
| "write_at (File old) (c # cs) d = Inl ENOTDIR"
| "write_at (Dir es) (c # cs) d =
     (case map_of es c of
        None \<Rightarrow> if cs = [] then Inr (Dir (es @ [(c, File d)])) else Inl ENOENT
      | Some m \<Rightarrow>
          (case write_at m cs d of
             Inl e \<Rightarrow> Inl e
           | Inr m' \<Rightarrow> Inr (Dir (AList.update c m' es))))"

text \<open>
  \<^verbatim>\<open>fs.writeFile(p, data, cb)\<close>: the whole file is replaced, or created in an existing
  directory. \<open>Inl\<close> is the error handed to \<^verbatim>\<open>cb\<close>, \<open>Inr\<close> the tree afterwards.
\<close>

definition writeFile ::
  "(string \<times> node) list \<Rightarrow> string \<Rightarrow> string \<Rightarrow> js_error + (string \<times> node) list" where
  "writeFile root p d =
     (if p = [] then Inl (SystemError ENOENT)
      else (case write_at (Dir root) (components p) d of
              Inl e \<Rightarrow> Inl (SystemError e)
            | Inr (File x) \<Rightarrow> Inl (SystemError EISDIR)
            | Inr (Dir root') \<Rightarrow>
                if must_dir p then
                  (case walk (Dir root) (components p) of
                     Inr (File x) \<Rightarrow> Inl (SystemError ENOTDIR)
                   | _ \<Rightarrow> Inl (SystemError EISDIR))
                else Inr root'))"

fun unlink_at :: "node \<Rightarrow> string list \<Rightarrow> errno + node" where
  "unlink_at n [] = Inl EISDIR"
| "unlink_at (File d) (c # cs) = Inl ENOTDIR"
| "unlink_at (Dir es) [c] =
     (case map_of es c of
        None \<Rightarrow> Inl ENOENT
      | Some (File d) \<Rightarrow> Inr (Dir (AList.delete c es))
      | Some (Dir sub) \<Rightarrow> Inl EISDIR)"
| "unlink_at (Dir es) (c # c' # cs) =
     (case map_of es c of
        None \<Rightarrow> Inl ENOENT
      | Some m \<Rightarrow>
          (case unlink_at m (c' # cs) of
             Inl e \<Rightarrow> Inl e
           | Inr m' \<Rightarrow> Inr (Dir (AList.update c m' es))))"

text \<open>
  \<^verbatim>\<open>fs.unlink(p, cb)\<close>: removes a regular file; a directory is refused. The call can
  also fail for reasons that the tree does not show (\<^verbatim>\<open>EACCES\<close> or \<^verbatim>\<open>EPERM\<close> for missing
  permissions, \<^verbatim>\<open>EROFS\<close>, \<^verbatim>\<open>EBUSY\<close>, \<^verbatim>\<open>EIO\<close>): \<open>refused\<close> lists the paths on which
  the platform refuses the call at this moment, each with its error. \<open>Inl\<close> is the error
  handed to \<^verbatim>\<open>cb\<close>, \<open>Inr\<close> the tree afterwards.
\<close>

definition unlink ::
  "(string \<times> errno) list \<Rightarrow> (string \<times> node) list \<Rightarrow> string
     \<Rightarrow> js_error + (string \<times> node) list" where
  "unlink refused root p =
     (case map_of refused p of
        Some e \<Rightarrow> Inl (SystemError e)
      | None \<Rightarrow>
          (if p = [] then Inl (SystemError ENOENT)
           else if must_dir p then
             (case walk (Dir root) (components p) of
                Inl e \<Rightarrow> Inl (SystemError e)
              | Inr (File d) \<Rightarrow> Inl (SystemError ENOTDIR)
              | Inr (Dir es) \<Rightarrow> Inl (SystemError EISDIR))
           else (case unlink_at (Dir root) (components p) of
                   Inl e \<Rightarrow> Inl (SystemError e)
                 | Inr (File x) \<Rightarrow> Inl (SystemError EISDIR)
                 | Inr (Dir root') \<Rightarrow> Inr root')))"

fun mkdirp_at :: "node \<Rightarrow> string list \<Rightarrow> errno + node" where
  "mkdirp_at (Dir es) [] = Inr (Dir es)"
| "mkdirp_at (File d) [] = Inl EEXIST"
| "mkdirp_at (File d) (c # cs) = Inl ENOTDIR"
| "mkdirp_at (Dir es) (c # cs) =
     (case map_of es c of
        None \<Rightarrow>
          (case mkdirp_at (Dir []) cs of
             Inl e \<Rightarrow> Inl e
           | Inr m' \<Rightarrow> Inr (Dir (es @ [(c, m')])))
      | Some m \<Rightarrow>
          (case mkdirp_at m cs of
             Inl e \<Rightarrow> Inl e
           | Inr m' \<Rightarrow> Inr (Dir (AList.update c m' es))))"

text \<open>\<^verbatim>\<open>mkdirp.sync(p)\<close>: creates the directory and the missing ones above it.\<close>

definition mkdirp_sync :: "(string \<times> node) list \<Rightarrow> string \<Rightarrow> js_error + (string \<times> node) list" where
  "mkdirp_sync root p =
     (if p = [] then Inl (SystemError ENOENT)
      else (case mkdirp_at (Dir root) (components p) of
              Inl e \<Rightarrow> Inl (SystemError e)
            | Inr (File x) \<Rightarrow> Inl (SystemError EEXIST)
            | Inr (Dir root') \<Rightarrow> Inr root'))"

subsection \<open>Collaborators that are not part of this file\<close>

text \<open>
  \<^verbatim>\<open>utils.ripemd160\<close>, the \<^verbatim>\<open>StorageItem\<close> constructor and \<^verbatim>\<open>JSON.parse\<close> are taken
  as parameters: the digest of a key as hex, the properties of \<^verbatim>\<open>new StorageItem({})\<close>,
  and the parser (\<open>None\<close> where it throws a \<^verbatim>\<open>SyntaxError\<close>).
\<close>

record deps =
  ripemd160 :: "string \<Rightarrow> string"
  StorageItem :: item
  JSON_parse :: "string \<Rightarrow> json option"

text \<open>
  Modelled from the spec: \<^verbatim>\<open>utils.existsSync\<close> (\<^verbatim>\<open>lib/utils\<close> is not among the sources),
  "a file exists at the path": the path resolves to a file or a directory.
\<close>

definition existsSync :: "(string \<times> node) list \<Rightarrow> string \<Rightarrow> bool" where
  "existsSync root p = (case lookup_path root p of Inl e \<Rightarrow> False | Inr n \<Rightarrow> True)"

text \<open>
  Modelled from the spec: \<^verbatim>\<open>utils.isDirectory\<close> (\<^verbatim>\<open>lib/utils\<close> is not among the sources),
  "assert it is a directory".
\<close>

definition utils_isDirectory :: "(string \<times> node) list \<Rightarrow> string \<Rightarrow> bool" where
  "utils_isDirectory root p =
     (case lookup_path root p of Inr (Dir es) \<Rightarrow> True | _ \<Rightarrow> False)"

subsection \<open>The adapter object, streams and the world\<close>

record adapter =
  adp_path :: string                 \<comment> \<open>\<^verbatim>\<open>this._path\<close>\<close>
  adp_isOpen :: bool                 \<comment> \<open>\<^verbatim>\<open>this._isOpen\<close>\<close>
  adp_lastTimeSize :: "nat option"   \<comment> \<open>\<^verbatim>\<open>this._lastTimeSize\<close>, \<open>None\<close> is \<^verbatim>\<open>null\<close>\<close>
  adp_storageSize :: nat             \<comment> \<open>\<^verbatim>\<open>this._storageSize\<close>\<close>

datatype sink = Stdout

record readable =
  buffer :: "string list"
  ended :: bool
  pipes :: "sink list"

datatype event = Piped nat sink | Pushed nat string | Ended nat

text \<open>
  A readable stream is an object that \<^verbatim>\<open>_keys\<close> creates, mutates and hands out, so the
  streams live in a store and are named by their index. \<open>events\<close> records the calls
  on streams in the order they happen. \<open>unlink_errors\<close> is what the platform refuses
  to \<^verbatim>\<open>fs.unlink\<close> at this moment.
\<close>

record world =
  self :: adapter
  fs :: "(string \<times> node) list"
  unlink_errors :: "(string \<times> errno) list"
  streams :: "readable list"
  stdout :: "string list"
  events :: "event list"

definition update_stream :: "nat \<Rightarrow> (readable \<Rightarrow> readable) \<Rightarrow> world \<Rightarrow> world" where
  "update_stream r f w =
     (if r < length (streams w) then w\<lparr>streams := (streams w)[r := f (streams w ! r)]\<rparr> else w)"

definition new_Readable :: "world \<Rightarrow> nat \<times> world" where
  "new_Readable w =
     (length (streams w),
      w\<lparr>streams := streams w @ [\<lparr>buffer = [], ended = False, pipes = []\<rparr>]\<rparr>)"

definition readable_pipe :: "nat \<Rightarrow> sink \<Rightarrow> world \<Rightarrow> world" where
  "readable_pipe r dest w =
     (update_stream r (\<lambda>s. s\<lparr>pipes := pipes s @ [dest]\<rparr>) w)\<lparr>events := events w @ [Piped r dest]\<rparr>"

definition readable_push :: "nat \<Rightarrow> string \<Rightarrow> world \<Rightarrow> world" where
  "readable_push r chunk w =
     (update_stream r (\<lambda>s. s\<lparr>buffer := buffer s @ [chunk]\<rparr>) w)\<lparr>events := events w @ [Pushed r chunk]\<rparr>"

definition readable_push_null :: "nat \<Rightarrow> world \<Rightarrow> world" where
  "readable_push_null r w =
     (update_stream r (\<lambda>s. s\<lparr>ended := True\<rparr>) w)\<lparr>events := events w @ [Ended r]\<rparr>"

text \<open>
  The next turn of the event loop, for a stream that was piped to the standard
  output: Node resumes the stream and reads from it. A stream that has ended hands
  the chunks it buffered to the standard output, in order. A stream that has not ended
  is first asked for more through \<^verbatim>\<open>_read\<close>, which a \<^verbatim>\<open>new Stream.Readable()\<close> without
  options does not implement: the error is raised inside the event loop, where nothing
  catches it, and nothing is written.
\<close>

definition flow_stream :: "nat \<Rightarrow> world \<Rightarrow> unit outcome \<times> world" where
  "flow_stream r w =
     (if r < length (streams w) \<and> Stdout \<in> set (pipes (streams w ! r)) then
        (if ended (streams w ! r) then
           (Returns (),
            (update_stream r (\<lambda>s. s\<lparr>buffer := []\<rparr>) w)
              \<lparr>stdout := stdout w @ buffer (streams w ! r)\<rparr>)
         else (Uncaught (NotImplemented ''_read()''), w))
      else (Returns (), w))"

subsection \<open>Identifiers and their bindings\<close>

datatype jsval =
    VUndefined
  | VNull
  | VString string
  | VArray "string list"
  | VFunction
  | VObject
  | VAdapter adapter

text \<open>
  A scope chain, innermost binding first. \<open>Some v\<close> is an initialised binding;
  \<open>None\<close> is a \<^verbatim>\<open>let\<close> or \<^verbatim>\<open>const\<close> binding whose initialiser has not finished. Reading
  a name with no binding, or with an uninitialised one, throws a \<^verbatim>\<open>ReferenceError\<close>.
\<close>

type_synonym scope = "(string \<times> jsval option) list"

definition read_ident :: "scope \<Rightarrow> string \<Rightarrow> js_error + jsval" where
  "read_ident sc x =
     (case map_of sc x of
        None \<Rightarrow> Inl (ReferenceError x)
      | Some None \<Rightarrow> Inl (ReferenceError x)
      | Some (Some v) \<Rightarrow> Inr v)"

text \<open>
  The bindings every function of the module sees: the module's own \<^verbatim>\<open>var\<close>s and
  function (lines 3 to 19), the parameters of the CommonJS wrapper, and globals of Node.
  Node has no global named \<^verbatim>\<open>self\<close>.
\<close>

definition module_scope :: scope where
  "module_scope =
     map (\<lambda>x. (x, Some VFunction))
       [''inherits'', ''StorageAdapter'', ''StorageItem'', ''assert'', ''FileStorageAdapter'',
        ''require'']
     @ map (\<lambda>x. (x, Some VObject))
       [''path'', ''fs'', ''utils'', ''mkdirp'', ''Stream'', ''exports'', ''module'',
        ''global'', ''globalThis'', ''process'', ''console'', ''JSON'', ''Buffer'']
     @ map (\<lambda>x. (x, Some (VString [])))
       [''__filename'', ''__dirname'']"

text \<open>\<^verbatim>\<open>v._path\<close> used as an argument of \<^verbatim>\<open>path.join\<close>, which accepts strings only.\<close>

definition path_of :: "jsval \<Rightarrow> js_error + string" where
  "path_of v =
     (case v of
        VAdapter a \<Rightarrow> Inr (adp_path a)
      | _ \<Rightarrow> Inl (TypeError ''path''))"

subsection \<open>The constructor\<close>

definition validatePath :: "(string \<times> node) list \<Rightarrow> string \<Rightarrow> js_error + (string \<times> node) list" where
  "validatePath root storageDirPath =
     (case (if \<not> existsSync root storageDirPath then mkdirp_sync root storageDirPath
            else Inr root) of
        Inl e \<Rightarrow> Inl e
      | Inr root' \<Rightarrow>
          if utils_isDirectory root' storageDirPath then Inr root'
          else Inl (AssertionError ''Invalid directory path supplied''))"

definition FileStorageAdapter :: "world \<Rightarrow> string \<Rightarrow> unit outcome \<times> world" where
  "FileStorageAdapter w storageDirPath =
     (case validatePath (fs w) storageDirPath of
        Inl e \<Rightarrow> (Throws e, w)
      | Inr root' \<Rightarrow>
          (Returns (),
           w\<lparr>fs := root',
             self := \<lparr>adp_path = storageDirPath, adp_isOpen = True,
                      adp_lastTimeSize = None, adp_storageSize = 0\<rparr>\<rparr>))"

subsection \<open>The methods\<close>

text \<open>
  The method \<^verbatim>\<open>FileStorageAdapter.prototype._get\<close> is \<open>fsa_get\<close> here, and likewise for
  the others: an Isabelle name cannot begin with an underscore.
\<close>

text \<open>
  \<^verbatim>\<open>_peek\<close> (lines 79 to 86). The function has the parameters \<^verbatim>\<open>key\<close> and \<^verbatim>\<open>callback\<close>
  and declares nothing else, so the \<^verbatim>\<open>self\<close> of line 80 is looked up in the scope
  chain while the arguments of \<^verbatim>\<open>fs.readFile\<close> are evaluated. \<^verbatim>\<open>JSON.parse\<close> runs inside
  the completion handler of \<^verbatim>\<open>fs.readFile\<close>, where nothing catches what it throws.
\<close>

definition fsa_peek :: "deps \<Rightarrow> world \<Rightarrow> string \<Rightarrow> json outcome \<times> world" where
  "fsa_peek d w key =
     (case read_ident ([(''key'', Some (VString key)), (''callback'', Some VFunction)]
                        @ module_scope) ''self'' of
        Inl e \<Rightarrow> (Throws e, w)
      | Inr v \<Rightarrow>
          (case path_of v of
             Inl e \<Rightarrow> (Throws e, w)
           | Inr p \<Rightarrow>
               (case readFile (fs w) (path_join p key) of
                  Inl err \<Rightarrow> (CbErr err, w)
                | Inr val \<Rightarrow>
                    (case JSON_parse d val of
                       None \<Rightarrow> (Uncaught SyntaxError, w)
                     | Some parsed \<Rightarrow> (CbOk parsed, w)))))"

text \<open>
  \<^verbatim>\<open>_put\<close> (lines 95 to 108). The two assignments change the caller's item, so the
  item as it is afterwards is returned too.
\<close>

definition fsa_put :: "deps \<Rightarrow> world \<Rightarrow> string \<Rightarrow> item \<Rightarrow> unit outcome \<times> world \<times> item" where
  "fsa_put d w key it =
     (let it1 = set_prop it ''shard'' JNull;
          it2 = set_prop it1 ''fskey'' (JStr (ripemd160 d key))
      in case writeFile (fs w) (path_join (adp_path (self w)) key) (JSON_stringify (JObj it2)) of
           Inl err \<Rightarrow> (CbErr err, w, it2)
         | Inr root' \<Rightarrow> (CbOk (), w\<lparr>fs := root'\<rparr>, it2))"

text \<open>\<^verbatim>\<open>_get\<close> (lines 54 to 71).\<close>

definition fsa_get :: "deps \<Rightarrow> world \<Rightarrow> string \<Rightarrow> json outcome \<times> world" where
  "fsa_get d w key =
     (let exist = existsSync (fs w) (path_join (adp_path (self w)) key)
      in if exist then
           (case fsa_peek d w key of
              (CbErr err, w') \<Rightarrow> (CbErr err, w')
            | (CbOk val, w') \<Rightarrow> (CbOk val, w')
            | (other, w') \<Rightarrow> (other, w'))
         else
           (let newItem = StorageItem d
            in case fsa_put d w key newItem of
                 (CbErr err, w', newItem') \<Rightarrow> (CbErr err, w')
               | (CbOk u, w', newItem') \<Rightarrow> (CbOk (JObj newItem'), w')
               | (Throws e, w', newItem') \<Rightarrow> (Throws e, w')
               | (Uncaught e, w', newItem') \<Rightarrow> (Uncaught e, w')
               | (Returns u, w', newItem') \<Rightarrow> (Returns (JObj newItem'), w')))"

text \<open>\<^verbatim>\<open>_del\<close> (lines 116 to 126).\<close>

definition fsa_del :: "world \<Rightarrow> string \<Rightarrow> unit outcome \<times> world" where
  "fsa_del w key =
     (if existsSync (fs w) (path_join (adp_path (self w)) key) then
        (case unlink (unlink_errors w) (fs w) (path_join (adp_path (self w)) key) of
           Inl err \<Rightarrow> (CbErr err, w)
         | Inr root' \<Rightarrow> (CbOk (), w\<lparr>fs := root'\<rparr>))
      else (CbOk (), w))"

text \<open>\<^verbatim>\<open>_flush\<close>, \<^verbatim>\<open>_open\<close> and \<^verbatim>\<open>_close\<close> (lines 133 to 136 and 207 to 218).\<close>

definition fsa_flush :: "world \<Rightarrow> unit outcome \<times> world" where
  "fsa_flush w = (CbOk (), w)"

definition fsa_open :: "world \<Rightarrow> unit outcome \<times> world" where
  "fsa_open w = (CbOk (), w)"

definition fsa_close :: "world \<Rightarrow> unit outcome \<times> world" where
  "fsa_close w = (CbOk (), w)"

text \<open>
  \<^verbatim>\<open>getAllFiles\<close> (lines 147 to 157). Line 150 is \<^verbatim>\<open>let arrayOfFiles = arrayOfFiles || []\<close>:
  the name on the right is the binding that the \<^verbatim>\<open>let\<close> itself declares, read before
  it is initialised. \<open>Inl\<close> is what the function throws.
\<close>

fun getAllFiles_forEach ::
  "(string \<times> node) list \<Rightarrow> string \<Rightarrow> string list \<Rightarrow> string list \<Rightarrow> js_error + string list" where
  "getAllFiles_forEach root dirPath arrayOfFiles [] = Inr arrayOfFiles"
| "getAllFiles_forEach root dirPath arrayOfFiles (file # files) =
     (case statSync root (dirPath @ ''/'' @ file) of
        Inl e \<Rightarrow> Inl e
      | Inr st \<Rightarrow>
          getAllFiles_forEach root dirPath
            (if \<not> isDirectory st then arrayOfFiles @ [path_join dirPath file] else arrayOfFiles)
            files)"

definition getAllFiles :: "scope \<Rightarrow> (string \<times> node) list \<Rightarrow> string \<Rightarrow> js_error + string list" where
  "getAllFiles outer root dirPath =
     (case readdirSync root dirPath of
        Inl e \<Rightarrow> Inl e
      | Inr files \<Rightarrow>
          (case read_ident ([(''dirPath'', Some (VString dirPath)),
                             (''files'', Some (VArray files)),
                             (''arrayOfFiles'', None)] @ outer) ''arrayOfFiles'' of
             Inl e \<Rightarrow> Inl e
           | Inr v \<Rightarrow>
               getAllFiles_forEach root dirPath (case v of VArray xs \<Rightarrow> xs | _ \<Rightarrow> []) files))"

fun totalSize_forEach :: "(string \<times> node) list \<Rightarrow> nat \<Rightarrow> string list \<Rightarrow> js_error + nat" where
  "totalSize_forEach root totalSize [] = Inr totalSize"
| "totalSize_forEach root totalSize (filePath # rest) =
     (case statSync root filePath of
        Inl e \<Rightarrow> Inl e
      | Inr st \<Rightarrow> totalSize_forEach root (totalSize + st_size st) rest)"

text \<open>
  \<^verbatim>\<open>_size\<close> (lines 144 to 175). The key is \<open>None\<close> when the caller passes the callback
  alone (lines 159 to 162); an empty string is falsy on line 164.
\<close>

definition fsa_size :: "world \<Rightarrow> string option \<Rightarrow> nat outcome \<times> world" where
  "fsa_size w key =
     (case key of
        Some (c # cs) \<Rightarrow>
          (case statSync (fs w) (path_join (adp_path (self w)) (c # cs)) of
             Inl e \<Rightarrow> (Throws e, w)
           | Inr st \<Rightarrow> (CbOk (st_size st), w))
      | _ \<Rightarrow>
        (case getAllFiles ([(''self'', Some (VAdapter (self w))), (''getAllFiles'', Some VFunction),
                            (''key'', Some VNull), (''callback'', Some VFunction)] @ module_scope)
                (fs w) (adp_path (self w)) of
           Inl e \<Rightarrow> (Throws e, w)
         | Inr arrayOfFiles \<Rightarrow>
             (case totalSize_forEach (fs w) 0 arrayOfFiles of
                Inl e \<Rightarrow> (Throws e, w)
              | Inr totalSize \<Rightarrow> (CbOk totalSize, w))))"

text \<open>
  \<^verbatim>\<open>_keys\<close> (lines 182 to 200). The handler of \<^verbatim>\<open>files.forEach\<close> names \<^verbatim>\<open>dirPath\<close>, which
  is a parameter of \<^verbatim>\<open>getAllFiles\<close> inside \<^verbatim>\<open>_size\<close> and has no binding here; it is
  looked up when the handler runs, once for each entry. \<open>Inl\<close> is what the loop throws.
\<close>

fun keys_forEach ::
  "scope \<Rightarrow> (string \<times> node) list \<Rightarrow> string list \<Rightarrow> string list \<Rightarrow> js_error + string list" where
  "keys_forEach sc root items [] = Inr items"
| "keys_forEach sc root items (file # files) =
     (case read_ident ((''file'', Some (VString file)) # sc) ''dirPath'' of
        Inl e \<Rightarrow> Inl e
      | Inr v \<Rightarrow>
          (case v of
             VString dirPath \<Rightarrow>
               (case statSync root (dirPath @ ''/'' @ file) of
                  Inl e \<Rightarrow> Inl e
                | Inr st \<Rightarrow>
                    keys_forEach sc root
                      (if \<not> isDirectory st then items @ [path_join dirPath file] else items)
                      files)
           | _ \<Rightarrow> Inl (TypeError ''path'')))"

definition keys_scope :: "world \<Rightarrow> nat \<Rightarrow> string list \<Rightarrow> scope" where
  "keys_scope w r files =
     [(''self'', Some (VAdapter (self w))), (''readable'', Some VObject),
      (''files'', Some (VArray files)), (''items'', Some (VArray []))] @ module_scope"

definition fsa_keys :: "world \<Rightarrow> nat outcome \<times> world" where
  "fsa_keys w =
     (let (r, w1) = new_Readable w;
          w2 = readable_pipe r Stdout w1
      in case readdirSync (fs w2) (adp_path (self w2)) of
           Inl e \<Rightarrow> (Throws e, w2)
         | Inr files \<Rightarrow>
             (case keys_forEach (keys_scope w2 r files) (fs w2) [] files of
                Inl e \<Rightarrow> (Throws e, w2)
              | Inr items \<Rightarrow>
                  (Returns r,
                   readable_push_null r (foldl (\<lambda>w' i. readable_push r i w') w2 items))))"

subsection \<open>A store to compute on\<close>

text \<open>
  The adapter rooted at \<^verbatim>\<open>/data\<close>, which holds the file \<^verbatim>\<open>a\<close> with the two
  bytes \<^verbatim>\<open>{}\<close> and the empty directory \<^verbatim>\<open>d\<close>; and collaborators whose parser
  reads \<^verbatim>\<open>{}\<close> as the empty object.
\<close>

definition ex_adapter :: adapter where
  "ex_adapter =
     \<lparr>adp_path = ''/data'', adp_isOpen = True, adp_lastTimeSize = None, adp_storageSize = 0\<rparr>"

definition ex_world :: world where
  "ex_world =
     \<lparr>self = ex_adapter,
      fs = [(''data'', Dir [(''a'', File ''{}''), (''d'', Dir [])])],
      unlink_errors = [],
      streams = [], stdout = [], events = []\<rparr>"

definition ex_deps :: deps where
  "ex_deps =
     \<lparr>ripemd160 = (\<lambda>k. replicate 40 (CHR ''0'')),
      StorageItem = [],
      JSON_parse = (\<lambda>s. if s = ''{}'' then Some (JObj []) else None)\<rparr>"

text \<open>
  The same world with other values in the two cached size fields of the adapter, and
  the world that holds nothing but an adapter with a given root path and a given tree.
\<close>

definition with_cache :: "nat option \<Rightarrow> nat \<Rightarrow> world \<Rightarrow> world" where
  "with_cache t s w = w\<lparr>self := (self w)\<lparr>adp_lastTimeSize := t, adp_storageSize := s\<rparr>\<rparr>"

definition fresh_world :: "string \<Rightarrow> (string \<times> node) list \<Rightarrow> world" where
  "fresh_world p root =
     \<lparr>self = \<lparr>adp_path = p, adp_isOpen = True, adp_lastTimeSize = None, adp_storageSize = 0\<rparr>,
      fs = root, unlink_errors = [], streams = [], stdout = [], events = []\<rparr>"

section \<open>Properties\<close>

subsection \<open>The file tree\<close>

lemma write_at_walk:
  "write_at n cs d = Inr n' \<Longrightarrow> walk n' cs = Inr (File d)"
proof (induction n cs d arbitrary: n' rule: write_at.induct)
  case (4 es c cs d)
  show ?case
  proof (cases "map_of es c")
    case None
    with "4.prems" have cs: "cs = []" and n': "n' = Dir (es @ [(c, File d)])"
      by (auto split: if_splits)
    from None show ?thesis by (simp add: cs n' map_add_def)
  next
    case (Some m)
    with "4.prems" obtain m' where w: "write_at m cs d = Inr m'"
      and n': "n' = Dir (AList.update c m' es)"
      by (auto split: sum.splits)
    from "4.IH"[OF Some w] show ?thesis by (simp add: n' update_conv')
  qed
qed simp_all

lemma writeFile_readFile:
  assumes "writeFile root p d = Inr root'"
  shows "readFile root' p = Inr d"
proof -
  from assms have p: "p \<noteq> []" and md: "\<not> must_dir p"
    and w: "write_at (Dir root) (components p) d = Inr (Dir root')"
    by (auto simp: writeFile_def split: if_splits sum.splits node.splits)
  from write_at_walk[OF w] show ?thesis
    using p md by (simp add: readFile_def lookup_path_def)
qed

lemma unlink_at_removes:
  "unlink_at n cs = Inr n' \<Longrightarrow> walk n' cs = Inl ENOENT"
proof (induction n cs arbitrary: n' rule: unlink_at.induct)
  case (1 n)
  then show ?case by simp
next
  case (2 d c cs)
  then show ?case by simp
next
  case (3 es c)
  then show ?case
    by (auto split: option.splits node.splits simp: delete_conv')
next
  case (4 es c c' cs)
  then show ?case
    by (auto split: option.splits sum.splits simp: update_conv')
qed

text \<open>Where \<^verbatim>\<open>fs.unlink\<close> succeeds, nothing is left at the path.\<close>

lemma unlink_removes:
  assumes "unlink refused root p = Inr root'"
  shows "lookup_path root' p = Inl ENOENT"
proof -
  from assms have p: "p \<noteq> []"
    and u: "unlink_at (Dir root) (components p) = Inr (Dir root')"
    by (auto simp: unlink_def split: option.splits if_splits sum.splits node.splits)
  from unlink_at_removes[OF u] show ?thesis
    using p by (simp add: lookup_path_def)
qed

subsection \<open>Names without a binding\<close>

lemma self_unbound:
  "read_ident ((''key'', Some (VString key)) # (''callback'', Some VFunction) # module_scope)
     ''self'' = Inl (ReferenceError ''self'')"
  by (simp add: read_ident_def module_scope_def)

text \<open>\<^verbatim>\<open>_peek\<close> throws before it reads anything, whatever the key and the store.\<close>

lemma peek_throws: "fsa_peek d w key = (Throws (ReferenceError ''self''), w)"
  by (simp add: fsa_peek_def self_unbound)

lemma arrayOfFiles_uninitialised:
  "read_ident ((''dirPath'', Some (VString dirPath)) # (''files'', Some (VArray files)) #
                (''arrayOfFiles'', None) # outer) ''arrayOfFiles''
     = Inl (ReferenceError ''arrayOfFiles'')"
  by (simp add: read_ident_def)

lemma getAllFiles_throws: "\<exists>e. getAllFiles outer root dirPath = Inl e"
  by (simp add: getAllFiles_def arrayOfFiles_uninitialised split: sum.splits)

text \<open>\<^verbatim>\<open>_size\<close> without a key never reaches its callback.\<close>

lemma size_all_never_completes: "\<exists>e. fsa_size w None = (Throws e, w)"
proof -
  obtain e where
    "getAllFiles ([(''self'', Some (VAdapter (self w))), (''getAllFiles'', Some VFunction),
        (''key'', Some VNull), (''callback'', Some VFunction)] @ module_scope)
       (fs w) (adp_path (self w)) = Inl e"
    using getAllFiles_throws by blast
  then show ?thesis by (simp add: fsa_size_def)
qed

lemma dirPath_unbound:
  "read_ident ((''file'', Some (VString file)) # keys_scope w r files) ''dirPath''
     = Inl (ReferenceError ''dirPath'')"
  by (simp add: read_ident_def keys_scope_def module_scope_def)

text \<open>The loop of \<^verbatim>\<open>_keys\<close> throws at the first entry of the directory.\<close>

lemma keys_forEach_throws:
  "keys_forEach (keys_scope w r fs0) root items (file # files) = Inl (ReferenceError ''dirPath'')"
  by (simp add: dirPath_unbound)

lemmas ex_simps = ex_world_def ex_adapter_def ex_deps_def path_join_def path_normalize_def
  lookup_path_def components_def must_dir_def existsSync_def readFile_def statSync_def
  stats_of_def readdirSync_def

subsection \<open>Reading: \<^verbatim>\<open>_get\<close> and \<^verbatim>\<open>_peek\<close>\<close>

text \<open>
  Claim C1: for a key with no file, \<^verbatim>\<open>get\<close> builds a new item, persists it with
  \<^verbatim>\<open>put\<close> under that key and returns it; for a key whose file exists, \<^verbatim>\<open>get\<close> returns
  the parsed contents of the file through \<^verbatim>\<open>peek\<close>. The second half fails on the
  code: in the store \<open>ex_world\<close> the file of key \<^verbatim>\<open>a\<close> exists and holds \<^verbatim>\<open>{}\<close>, and
  \<^verbatim>\<open>get\<close> throws the \<^verbatim>\<open>ReferenceError\<close> of \<^verbatim>\<open>_peek\<close> instead of returning anything.
\<close>

theorem get_existing_key_throws:
  "existsSync (fs ex_world) (path_join (adp_path (self ex_world)) ''a'')
   \<and> readFile (fs ex_world) (path_join (adp_path (self ex_world)) ''a'') = Inr ''{}''
   \<and> fsa_get d ex_world ''a'' = (Throws (ReferenceError ''self''), ex_world)"
  by (simp add: fsa_get_def peek_throws ex_simps)

text \<open>
  Claim C6: \<^verbatim>\<open>peek\<close> reads the file of an existing key as UTF-8, parses it as JSON and
  returns the parsed contents, and fails with a read error or a parse error otherwise.
  On the code the file of key \<^verbatim>\<open>a\<close> holds the valid JSON text \<^verbatim>\<open>{}\<close>, and \<^verbatim>\<open>peek\<close>
  throws a \<^verbatim>\<open>ReferenceError\<close> without calling back.
\<close>

theorem peek_valid_json_throws:
  "readFile (fs ex_world) (path_join (adp_path (self ex_world)) ''a'') = Inr ''{}''
   \<and> JSON_parse ex_deps ''{}'' = Some (JObj [])
   \<and> fsa_peek ex_deps ex_world ''a'' = (Throws (ReferenceError ''self''), ex_world)"
  by (simp add: peek_throws ex_simps)

subsection \<open>Writing: \<^verbatim>\<open>_put\<close>\<close>

text \<open>
  Claim C2: \<^verbatim>\<open>put(k, i)\<close> followed by \<^verbatim>\<open>peek(k)\<close> returns an item whose \<^verbatim>\<open>fskey\<close> is
  the RIPEMD-160 hex digest of \<^verbatim>\<open>k\<close>. On the code the \<^verbatim>\<open>put\<close> succeeds and the
  \<^verbatim>\<open>peek\<close> after it throws, so no item comes back.
\<close>

theorem put_then_peek_throws:
  "(case fsa_put d ex_world ''x'' [(''foo'', JNum 1)] of
      (r, w', it') \<Rightarrow>
        r = CbOk () \<and> fsa_peek d w' ''x'' = (Throws (ReferenceError ''self''), w'))"
  by (simp add: fsa_put_def Let_def peek_throws writeFile_def ex_simps)

lemma put_result:
  "fsa_put d w k it = (CbOk (), w', it') \<Longrightarrow>
     it' = set_prop (set_prop it ''shard'' JNull) ''fskey'' (JStr (ripemd160 d k))
     \<and> writeFile (fs w) (path_join (adp_path (self w)) k) (JSON_stringify (JObj it')) = Inr (fs w')"
  by (auto simp: fsa_put_def Let_def simp del: JSON_stringify.simps split: sum.splits)

text \<open>
  Claim C3, as the code has it: after a \<^verbatim>\<open>put(k, i)\<close> that completes successfully, the
  file of \<^verbatim>\<open>k\<close> holds the JSON text of the item with \<^verbatim>\<open>shard\<close> set to \<^verbatim>\<open>null\<close> and
  \<^verbatim>\<open>fskey\<close> set to the digest of the key: the \<^verbatim>\<open>shard\<close> field is present with the
  value \<^verbatim>\<open>null\<close>, whatever \<^verbatim>\<open>i.shard\<close> contained.
\<close>

theorem put_persists_null_shard:
  assumes "fsa_put d w k it = (CbOk (), w', it')"
  shows "readFile (fs w') (path_join (adp_path (self w)) k) = Inr (JSON_stringify (JObj it'))
       \<and> it' = set_prop (set_prop it ''shard'' JNull) ''fskey'' (JStr (ripemd160 d k))
       \<and> get_prop it' ''shard'' = Some JNull"
proof -
  from put_result[OF assms] have it': "it' = set_prop (set_prop it ''shard'' JNull) ''fskey'' (JStr (ripemd160 d k))"
    and w: "writeFile (fs w) (path_join (adp_path (self w)) k) (JSON_stringify (JObj it')) = Inr (fs w')"
    by blast+
  have "get_prop it' ''shard'' = Some JNull"
    by (simp add: it' get_prop_def set_prop_def update_conv')
  with writeFile_readFile[OF w] it' show ?thesis by (simp del: JSON_stringify.simps)
qed

theorem put_persists_null_shard_witness:
  "(case fsa_put ex_deps ex_world ''x'' [(''foo'', JNum 1), (''shard'', JStr ''ZZZ'')] of
      (r, w', it') \<Rightarrow>
        r = CbOk ()
        \<and> readFile (fs w') ''/data/x'' = Inr (JSON_stringify (JObj it'))
        \<and> it' = [(''foo'', JNum 1), (''shard'', JNull), (''fskey'', JStr (replicate 40 (CHR ''0'')))]
        \<and> get_prop it' ''shard'' = Some JNull)"
proof -
  obtain w' it' where
    eq: "fsa_put ex_deps ex_world ''x'' [(''foo'', JNum 1), (''shard'', JStr ''ZZZ'')] = (CbOk (), w', it')"
    by (simp add: fsa_put_def Let_def writeFile_def ex_simps)
  have p: "path_join (adp_path (self ex_world)) ''x'' = ''/data/x''"
    by (simp add: ex_simps)
  have d: "ripemd160 ex_deps ''x'' = replicate 40 (CHR ''0'')"
    by (simp add: ex_deps_def)
  from put_persists_null_shard[OF eq] show ?thesis
    by (simp add: eq p d set_prop_def get_prop_def del: JSON_stringify.simps)
qed

text \<open>
  The claim as stated, that the persisted item has no \<^verbatim>\<open>shard\<close> field at all, fails:
  \<^verbatim>\<open>put("x", {foo:1, shard:"ZZZ"})\<close> writes the text of
  \<^verbatim>\<open>{foo:1, shard:null, fskey:...}\<close>, which is not the text of \<^verbatim>\<open>{foo:1, fskey:...}\<close>,
  and the \<^verbatim>\<open>peek\<close> after it does not return that item either.
\<close>

theorem put_shard_counterexample:
  "(case fsa_put ex_deps ex_world ''x'' [(''foo'', JNum 1), (''shard'', JStr ''ZZZ'')] of
      (r, w', it') \<Rightarrow>
        r = CbOk ()
        \<and> readFile (fs w') ''/data/x''
            = Inr (JSON_stringify (JObj [(''foo'', JNum 1), (''shard'', JNull),
                                         (''fskey'', JStr (replicate 40 (CHR ''0'')))]))
        \<and> readFile (fs w') ''/data/x''
            \<noteq> Inr (JSON_stringify (JObj [(''foo'', JNum 1),
                                         (''fskey'', JStr (replicate 40 (CHR ''0'')))]))
        \<and> fst (fsa_peek ex_deps w' ''x'')
            \<noteq> CbOk (JObj [(''foo'', JNum 1), (''fskey'', JStr (replicate 40 (CHR ''0'')))]))"
  by (simp add: fsa_put_def Let_def writeFile_def peek_throws set_prop_def json_quote_def
      escape_char_def ex_simps)

text \<open>
  The two branches of \<^verbatim>\<open>_get\<close>: on a hit it throws with \<^verbatim>\<open>_peek\<close>; on a miss, when
  it completes, it hands back the new item as \<^verbatim>\<open>_put\<close> left it, and the file of the
  key holds the text of that item.
\<close>

lemma get_hit_throws:
  "existsSync (fs w) (path_join (adp_path (self w)) k) \<Longrightarrow>
     fsa_get d w k = (Throws (ReferenceError ''self''), w)"
  by (simp add: fsa_get_def peek_throws)

lemma get_miss_creates:
  assumes "\<not> existsSync (fs w) (path_join (adp_path (self w)) k)"
    and "fsa_get d w k = (CbOk v, w')"
  shows "v = JObj (set_prop (set_prop (StorageItem d) ''shard'' JNull) ''fskey''
                    (JStr (ripemd160 d k)))
       \<and> readFile (fs w') (path_join (adp_path (self w)) k) = Inr (JSON_stringify v)"
proof -
  from assms obtain it' where
    p: "fsa_put d w k (StorageItem d) = (CbOk (), w', it')" and v: "v = JObj it'"
    by (auto simp: fsa_get_def Let_def split: prod.splits outcome.splits)
  from put_result[OF p] have it': "it' = set_prop (set_prop (StorageItem d) ''shard'' JNull) ''fskey'' (JStr (ripemd160 d k))"
    and wr: "writeFile (fs w) (path_join (adp_path (self w)) k) (JSON_stringify (JObj it')) = Inr (fs w')"
    by blast+
  from writeFile_readFile[OF wr] it' v show ?thesis by (simp del: JSON_stringify.simps)
qed

subsection \<open>Deleting: \<^verbatim>\<open>_del\<close>\<close>

text \<open>
  \<^verbatim>\<open>_del\<close> hands every error of \<^verbatim>\<open>fs.unlink\<close> to its callback and leaves the file
  where it is: here the platform refuses to unlink \<^verbatim>\<open>/data/a\<close>.
\<close>

lemma del_refused_reports:
  "fsa_del (ex_world\<lparr>unlink_errors := [(''/data/a'', EACCES)]\<rparr>) ''a''
     = (CbErr (SystemError EACCES), ex_world\<lparr>unlink_errors := [(''/data/a'', EACCES)]\<rparr>)"
  by (simp add: fsa_del_def unlink_def ex_simps)

text \<open>
  Claim C7, as the code has it: \<^verbatim>\<open>delete\<close> is idempotent once it has succeeded. For
  every key, a \<^verbatim>\<open>delete(k)\<close> on a key with no file succeeds and changes nothing; and
  when a \<^verbatim>\<open>delete(k)\<close> succeeds, nothing is left at the path of \<^verbatim>\<open>k\<close> and a second
  \<^verbatim>\<open>delete(k)\<close> succeeds too and changes nothing, whatever the platform refuses to
  \<^verbatim>\<open>fs.unlink\<close> by then.
\<close>

theorem del_idempotent_after_success:
  "(\<not> existsSync (fs w) (path_join (adp_path (self w)) k) \<longrightarrow> fsa_del w k = (CbOk (), w))
   \<and> (fsa_del w k = (CbOk (), w1) \<longrightarrow>
        \<not> existsSync (fs w1) (path_join (adp_path (self w)) k)
        \<and> fsa_del (w1\<lparr>unlink_errors := r\<rparr>) k = (CbOk (), w1\<lparr>unlink_errors := r\<rparr>))"
proof (intro conjI impI)
  assume "\<not> existsSync (fs w) (path_join (adp_path (self w)) k)"
  then show "fsa_del w k = (CbOk (), w)" by (simp add: fsa_del_def)
next
  assume ok: "fsa_del w k = (CbOk (), w1)"
  have gone: "\<not> existsSync (fs w1) (path_join (adp_path (self w)) k)"
  proof (cases "existsSync (fs w) (path_join (adp_path (self w)) k)")
    case False
    with ok show ?thesis by (simp add: fsa_del_def)
  next
    case True
    with ok obtain root' where
      u: "unlink (unlink_errors w) (fs w) (path_join (adp_path (self w)) k) = Inr root'"
      and w1: "w1 = w\<lparr>fs := root'\<rparr>"
      by (auto simp: fsa_del_def split: sum.splits)
    from unlink_removes[OF u] show ?thesis by (simp add: w1 existsSync_def)
  qed
  have same: "self w1 = self w"
    using ok by (auto simp: fsa_del_def split: if_splits sum.splits)
  from gone show "\<not> existsSync (fs w1) (path_join (adp_path (self w)) k)" .
  from gone same
  show "fsa_del (w1\<lparr>unlink_errors := r\<rparr>) k = (CbOk (), w1\<lparr>unlink_errors := r\<rparr>)"
    by (simp add: fsa_del_def)
qed

theorem del_idempotent_after_success_witness:
  "existsSync (fs ex_world) (path_join (adp_path (self ex_world)) ''a'')
   \<and> fsa_del ex_world ''a'' = (CbOk (), ex_world\<lparr>fs := [(''data'', Dir [(''d'', Dir [])])]\<rparr>)
   \<and> \<not> existsSync [(''data'', Dir [(''d'', Dir [])])] (path_join (adp_path (self ex_world)) ''a'')
   \<and> fsa_del (ex_world\<lparr>fs := [(''data'', Dir [(''d'', Dir [])])],
                         unlink_errors := [(''/data/a'', EACCES)]\<rparr>) ''a''
       = (CbOk (), ex_world\<lparr>fs := [(''data'', Dir [(''d'', Dir [])])],
                              unlink_errors := [(''/data/a'', EACCES)]\<rparr>)"
proof -
  have e: "existsSync (fs ex_world) (path_join (adp_path (self ex_world)) ''a'')"
    by (simp add: ex_simps)
  have ok: "fsa_del ex_world ''a'' = (CbOk (), ex_world\<lparr>fs := [(''data'', Dir [(''d'', Dir [])])]\<rparr>)"
    by (simp add: fsa_del_def unlink_def AList.delete_eq ex_simps)
  from del_idempotent_after_success
         [of ex_world "''a''" "ex_world\<lparr>fs := [(''data'', Dir [(''d'', Dir [])])]\<rparr>"
             "[(''/data/a'', EACCES)]"]
       e ok
  show ?thesis by simp
qed

text \<open>
  The claim as stated, that \<^verbatim>\<open>delete\<close> succeeds for every key, fails where the key
  names a directory under the root: \<^verbatim>\<open>fs.unlink\<close> refuses it and \<^verbatim>\<open>delete\<close> reports that
  error.
\<close>

theorem del_directory_counterexample:
  "existsSync (fs ex_world) (path_join (adp_path (self ex_world)) ''d'')
   \<and> fsa_del ex_world ''d'' = (CbErr (SystemError EISDIR), ex_world)"
  by (simp add: fsa_del_def unlink_def ex_simps)

subsection \<open>Sizes: \<^verbatim>\<open>_size\<close>\<close>

text \<open>
  Claim C4: \<^verbatim>\<open>size()\<close> without a key returns the sum of the byte lengths of the
  regular files directly under the root, which is the sum of \<^verbatim>\<open>size(k)\<close> over the keys.
  On the code \<^verbatim>\<open>size("a")\<close> is 2 in the store \<open>ex_world\<close>, whose only file is \<^verbatim>\<open>a\<close>,
  and \<^verbatim>\<open>size()\<close> throws a \<^verbatim>\<open>ReferenceError\<close> instead of returning 2.
\<close>

theorem size_all_throws:
  "fsa_size ex_world (Some ''a'') = (CbOk 2, ex_world)
   \<and> fsa_size ex_world None = (Throws (ReferenceError ''arrayOfFiles''), ex_world)"
  by (simp add: fsa_size_def getAllFiles_def arrayOfFiles_uninitialised ex_simps)

text \<open>
  Claim C8: for a key whose file does not exist \<^verbatim>\<open>size(key)\<close> fails, and the failure
  reaches the caller through the callback. On the code the failure is the exception
  of \<^verbatim>\<open>fs.statSync\<close>, which leaves \<^verbatim>\<open>_size\<close> synchronously; the callback is not invoked.
\<close>

theorem size_missing_key_throws:
  "\<not> existsSync (fs ex_world) (path_join (adp_path (self ex_world)) ''missing'')
   \<and> fsa_size ex_world (Some ''missing'') = (Throws (SystemError ENOENT), ex_world)"
  by (simp add: fsa_size_def ex_simps)

subsection \<open>Enumeration: \<^verbatim>\<open>_keys\<close>\<close>

text \<open>
  Claim C5: the sequence of \<^verbatim>\<open>keys()\<close> yields exactly the names of the regular files
  directly under the root, each once, and then ends. On the code the root of
  \<open>ex_world\<close> lists \<^verbatim>\<open>a\<close> and \<^verbatim>\<open>d\<close>, and \<^verbatim>\<open>keys()\<close> throws a \<^verbatim>\<open>ReferenceError\<close> at the
  first of them: no stream is returned and nothing is yielded.
\<close>

theorem keys_one_file_throws:
  "readdirSync (fs ex_world) (adp_path (self ex_world)) = Inr [''a'', ''d'']
   \<and> fst (fsa_keys ex_world) = Throws (ReferenceError ''dirPath'')"
  by (simp add: fsa_keys_def new_Readable_def readable_pipe_def update_stream_def
      dirPath_unbound ex_simps)

subsection \<open>Streams\<close>

lemma fsa_keys_unfold:
  "fsa_keys w =
     (let r = length (streams w); w2 = readable_pipe r Stdout (snd (new_Readable w))
      in case readdirSync (fs w) (adp_path (self w)) of
           Inl e \<Rightarrow> (Throws e, w2)
         | Inr files \<Rightarrow>
             (case keys_forEach (keys_scope w2 r files) (fs w) [] files of
                Inl e \<Rightarrow> (Throws e, w2)
              | Inr items \<Rightarrow>
                  (Returns r,
                   readable_push_null r (foldl (\<lambda>w' i. readable_push r i w') w2 items))))"
  by (simp add: fsa_keys_def new_Readable_def readable_pipe_def update_stream_def Let_def
      keys_scope_def split: sum.splits)

text \<open>
  \<^verbatim>\<open>_keys\<close> returns a stream for an empty root only; any entry makes it throw.
\<close>

lemma keys_nonempty_throws:
  "readdirSync (fs w) (adp_path (self w)) = Inr (file # files) \<Longrightarrow>
     fst (fsa_keys w) = Throws (ReferenceError ''dirPath'')"
  by (simp add: fsa_keys_unfold Let_def dirPath_unbound)

lemma keys_empty_returns:
  "readdirSync (fs w) (adp_path (self w)) = Inr [] \<Longrightarrow>
     fst (fsa_keys w) = Returns (length (streams w))"
  by (simp add: fsa_keys_unfold Let_def)

lemma keys_cases:
  "fsa_keys w =
     (let r = length (streams w); w2 = readable_pipe r Stdout (snd (new_Readable w))
      in case readdirSync (fs w) (adp_path (self w)) of
           Inl e \<Rightarrow> (Throws e, w2)
         | Inr [] \<Rightarrow> (Returns r, readable_push_null r w2)
         | Inr (file # files) \<Rightarrow> (Throws (ReferenceError ''dirPath''), w2))"
  by (simp add: fsa_keys_unfold Let_def dirPath_unbound split: sum.splits list.splits)

text \<open>
  In every world the pipe into the standard output is the first stream event of a
  call of \<^verbatim>\<open>_keys\<close>, also of a call that throws; no chunk is ever pushed, and neither the
  call nor the next turn of the event loop writes to the standard output.
\<close>

lemma keys_pipes_first:
  "(case fsa_keys w of
      (res, w') \<Rightarrow>
        (events w' = events w @ [Piped (length (streams w)) Stdout]
         \<or> events w' = events w @ [Piped (length (streams w)) Stdout, Ended (length (streams w))])
        \<and> length (streams w') = Suc (length (streams w))
        \<and> pipes (streams w' ! length (streams w)) = [Stdout]
        \<and> buffer (streams w' ! length (streams w)) = []
        \<and> stdout w' = stdout w)"
  by (simp add: keys_cases Let_def new_Readable_def readable_pipe_def readable_push_null_def
      update_stream_def split: sum.splits list.splits)

lemma keys_never_writes:
  "stdout (snd (flow_stream (length (streams w)) (snd (fsa_keys w)))) = stdout w"
  by (simp add: keys_cases Let_def new_Readable_def readable_pipe_def readable_push_null_def
      update_stream_def flow_stream_def split: sum.splits list.splits)


subsection \<open>The cached size fields\<close>

lemma with_cache_sel [simp]:
  "fs (with_cache t s w) = fs w"
  "adp_path (self (with_cache t s w)) = adp_path (self w)"
  "streams (with_cache t s w) = streams w"
  "events (with_cache t s w) = events w"
  "stdout (with_cache t s w) = stdout w"
  "unlink_errors (with_cache t s w) = unlink_errors w"
  by (simp_all add: with_cache_def)

lemma with_cache_fs_update [simp]:
  "(with_cache t s w)\<lparr>fs := r\<rparr> = with_cache t s (w\<lparr>fs := r\<rparr>)"
  by (simp add: with_cache_def)

lemma peek_cache: "fsa_peek d (with_cache t s w) k = (fst (fsa_peek d w k), with_cache t s (snd (fsa_peek d w k)))"
  by (simp add: peek_throws)

lemma put_cache:
  "fsa_put d (with_cache t s w) k it =
     (case fsa_put d w k it of (r, w', it') \<Rightarrow> (r, with_cache t s w', it'))"
  by (simp add: fsa_put_def Let_def del: JSON_stringify.simps split: sum.splits)

lemma get_cache: "fsa_get d (with_cache t s w) k = (fst (fsa_get d w k), with_cache t s (snd (fsa_get d w k)))"
  by (simp add: fsa_get_def peek_throws put_cache Let_def split: prod.splits outcome.splits)

lemma del_cache: "fsa_del (with_cache t s w) k = (fst (fsa_del w k), with_cache t s (snd (fsa_del w k)))"
  by (simp add: fsa_del_def split: sum.splits)

lemma size_cache: "fsa_size (with_cache t s w) key = (fst (fsa_size w key), with_cache t s (snd (fsa_size w key)))"
  by (simp add: fsa_size_def getAllFiles_def arrayOfFiles_uninitialised
      split: sum.splits option.splits list.splits)

lemma update_stream_cache:
  "update_stream r f (with_cache t s w) = with_cache t s (update_stream r f w)"
  by (simp add: update_stream_def with_cache_def)

lemma push_cache: "readable_push r c (with_cache t s w) = with_cache t s (readable_push r c w)"
  by (simp add: readable_push_def update_stream_cache) (simp add: with_cache_def)

lemma keys_cache: "fsa_keys (with_cache t s w) = (fst (fsa_keys w), with_cache t s (snd (fsa_keys w)))"
proof (cases "readdirSync (fs w) (adp_path (self w))")
  case (Inl e)
  then show ?thesis
    by (simp add: fsa_keys_def new_Readable_def readable_pipe_def update_stream_def with_cache_def)
next
  case (Inr files)
  then show ?thesis
    by (cases files)
      (simp_all add: fsa_keys_def new_Readable_def readable_pipe_def readable_push_null_def
        update_stream_def with_cache_def dirPath_unbound)
qed

lemma self_kept:
  "self (snd (fsa_get d w k)) = self w"
  "self (snd (fsa_peek d w k)) = self w"
  "self (fst (snd (fsa_put d w k it))) = self w"
  "self (snd (fsa_del w k)) = self w"
  "self (snd (fsa_size w key)) = self w"
  "self (snd (fsa_keys w)) = self w"
       apply (simp add: fsa_get_def fsa_put_def peek_throws Let_def split: sum.splits)
      apply (simp add: peek_throws)
     apply (simp add: fsa_put_def Let_def split: sum.splits)
    apply (simp add: fsa_del_def split: sum.splits)
   apply (simp add: fsa_size_def split: sum.splits option.splits list.splits)
  apply (cases "readdirSync (fs w) (adp_path (self w))")
   apply (simp add: fsa_keys_def new_Readable_def readable_pipe_def update_stream_def)
  subgoal for files
    by (cases files)
      (simp_all add: fsa_keys_def new_Readable_def readable_pipe_def readable_push_null_def
        update_stream_def dirPath_unbound)
  done

lemma size_from_disk:
  "fst (fsa_size w key) = fst (fsa_size (fresh_world (adp_path (self w)) (fs w)) key)"
  by (simp add: fsa_size_def fresh_world_def getAllFiles_def arrayOfFiles_uninitialised
      split: sum.splits option.splits list.splits)

text \<open>The constructor sets the two fields to \<^verbatim>\<open>null\<close> and \<^verbatim>\<open>0\<close>.\<close>

lemma constructed_cache:
  "FileStorageAdapter w p = (Returns u, w') \<Longrightarrow>
     adp_lastTimeSize (self w') = None \<and> adp_storageSize (self w') = 0
     \<and> adp_path (self w') = p \<and> utils_isDirectory (fs w') p"
  by (auto simp: FileStorageAdapter_def validatePath_def split: sum.splits if_splits)

text \<open>
  No method reads or writes \<^verbatim>\<open>_storageSize\<close> or \<^verbatim>\<open>_lastTimeSize\<close>: the outcome of
  \<^verbatim>\<open>_size\<close> is the one computed in the world that has only the root path and the tree;
  with other values in the two fields every method has the same outcome and the same
  effects; and every method leaves the adapter object as it was.
\<close>

lemma cached_size_fields_frame:
  "fst (fsa_size w key) = fst (fsa_size (fresh_world (adp_path (self w)) (fs w)) key)
   \<and> fsa_size (with_cache t s w) key
       = (fst (fsa_size w key), with_cache t s (snd (fsa_size w key)))
   \<and> fsa_get d (with_cache t s w) k
       = (fst (fsa_get d w k), with_cache t s (snd (fsa_get d w k)))
   \<and> fsa_peek d (with_cache t s w) k
       = (fst (fsa_peek d w k), with_cache t s (snd (fsa_peek d w k)))
   \<and> fsa_put d (with_cache t s w) k it
       = (case fsa_put d w k it of (r, w', it') \<Rightarrow> (r, with_cache t s w', it'))
   \<and> fsa_del (with_cache t s w) k
       = (fst (fsa_del w k), with_cache t s (snd (fsa_del w k)))
   \<and> fsa_keys (with_cache t s w)
       = (fst (fsa_keys w), with_cache t s (snd (fsa_keys w)))
   \<and> fsa_flush (with_cache t s w) = (fst (fsa_flush w), with_cache t s (snd (fsa_flush w)))
   \<and> fsa_open (with_cache t s w) = (fst (fsa_open w), with_cache t s (snd (fsa_open w)))
   \<and> fsa_close (with_cache t s w) = (fst (fsa_close w), with_cache t s (snd (fsa_close w)))
   \<and> self (snd (fsa_size w key)) = self w
   \<and> self (snd (fsa_get d w k)) = self w
   \<and> self (snd (fsa_peek d w k)) = self w
   \<and> self (fst (snd (fsa_put d w k it))) = self w
   \<and> self (snd (fsa_del w k)) = self w
   \<and> self (snd (fsa_keys w)) = self w
   \<and> self (snd (fsa_flush w)) = self w
   \<and> self (snd (fsa_open w)) = self w
   \<and> self (snd (fsa_close w)) = self w"
  using size_from_disk[of w key] size_cache[of t s w key] get_cache[of d t s w k]
    peek_cache[of d t s w k] put_cache[of d t s w k it] del_cache[of t s w k]
    keys_cache[of t s w] self_kept(1)[of d w k] self_kept(2)[of d w k]
    self_kept(3)[of d w k it] self_kept(4)[of w k] self_kept(5)[of w key] self_kept(6)[of w]
  by (simp only: fsa_flush_def fsa_open_def fsa_close_def fst_conv snd_conv simp_thms)

text \<open>
  Claim C9: the aggregate \<^verbatim>\<open>size()\<close> result is computed from the disk on every call
  and depends on the directory contents alone, no cached total having a part in it.
  On the code there is no aggregate result: in the store \<open>ex_world\<close>, whose file \<^verbatim>\<open>a\<close>
  has 2 bytes, \<^verbatim>\<open>size()\<close> throws whatever the two cached fields hold, where the claim
  has it return the 2 that \<^verbatim>\<open>size("a")\<close> returns.
\<close>

theorem size_all_throws_any_cache:
  "fsa_size (with_cache t s ex_world) (Some ''a'') = (CbOk 2, with_cache t s ex_world)
   \<and> fsa_size (with_cache t s ex_world) None
       = (Throws (ReferenceError ''arrayOfFiles''), with_cache t s ex_world)"
  by (simp add: fsa_size_def getAllFiles_def arrayOfFiles_uninitialised with_cache_def ex_simps)

end
